theory Spec2Isabelle
  imports Complex_Main "HOL-Library.Sublist"
begin

section \<open>The barcode scanning modal: aggregation store, threshold gate, verification\<close>

text \<open>
  The source file \<^verbatim>\<open>barcode-scanning-modal.component.ts\<close> holds two revisions of one
  component. The first (lines 1 to 261) has no timestamps and no overlay; the second
  (lines 262 to 618) adds \<^verbatim>\<open>timestamp\<close>, the debounced selectors and \<^verbatim>\<open>drawBoxes\<close>.
  Definitions that differ between the two take the revision as their first argument.

  Conventions of the embedding.
  \<^item> A JavaScript number that counts detections is an \<open>int\<close>, or \<open>NaN\<close>; doubles are
    exact on the integers a session can reach. Coordinates are rationals.
  \<^item> An object of the store is a record whose properties are all optional, because
    spreading \<^verbatim>\<open>undefined\<close> yields an object without them; \<open>None\<close> is a property that
    is absent (it reads as \<^verbatim>\<open>undefined\<close>).
  \<^item> \<^verbatim>\<open>state.scanResults\<close> is an association list of its own properties, in property
    enumeration order. Reading \<^verbatim>\<open>state.scanResults[k]\<close> finds an own property first and
    then the members the object inherits from \<^verbatim>\<open>Object.prototype\<close>.
  \<^item> Object identity, which \<^verbatim>\<open>distinctUntilChanged\<close> compares, is the field \<open>ref\<close>;
    the state counts the objects allocated so far.
  \<^item> \<^verbatim>\<open>new Date()\<close> is a clock reading passed as an argument.
\<close>

datatype revision = First | Second

subsection \<open>Data model\<close>

datatype BarcodeSearchStatus = scanned | rejected | matched

datatype number = Num int | NaN

type_synonym point = "rat \<times> rat"

text \<open>
  Modelled from the spec: the type \<^verbatim>\<open>Barcode\<close> of the scanner plugin is imported, not
  declared in the sources. The spec's DetectionEvent carries a decoded value, a format and
  optional corner points; the arrival time is read from the clock by the updater.
\<close>

record Barcode =
  barcode_displayValue :: string
  barcode_format :: string
  barcode_cornerPoints :: "point list option"

record BarcodeScanResults =
  displayValue :: "string option"
  format :: "string option"
  cornerPoints :: "point list option"
  count :: "number option"
  searchStatus :: "BarcodeSearchStatus option"
  timestamp :: "int option"
  ref :: nat

record BarcodeScannerState =
  scanResults :: "(string \<times> BarcodeScanResults) list"
  allocated :: nat

definition POSITIVE_SCAN_THRESHOLD :: int where
  "POSITIVE_SCAN_THRESHOLD = 3"

fun API_LATENCY_MS :: "revision \<Rightarrow> int" where
  "API_LATENCY_MS First = 250"
| "API_LATENCY_MS Second = 2500"

definition KEEP_SCANNING_AFTER_MATCH :: bool where
  "KEEP_SCANNING_AFTER_MATCH = False"

definition initial_state :: BarcodeScannerState where
  "initial_state = \<lparr>scanResults = [], allocated = 0\<rparr>"

subsection \<open>Objects: property order, lookup, spread\<close>

definition index_value :: "string \<Rightarrow> int" where
  "index_value k = foldl (\<lambda>n c. 10 * n + (of_char c - 48)) 0 k"

definition is_array_index :: "string \<Rightarrow> bool" where
  "is_array_index k =
     (k \<noteq> [] \<and> list_all (\<lambda>c. c \<in> set ''0123456789'') k
      \<and> (if hd k = CHR ''0'' then k = ''0'' else True)
      \<and> index_value k < 4294967295)"

text \<open>
  Own property keys enumerate array indices first, in ascending numeric order, then the
  other strings in the order of their creation. A new index key is placed among the
  indices; a new string key goes last; an existing key keeps its place.
\<close>

fun insert_index :: "string \<Rightarrow> 'v \<Rightarrow> (string \<times> 'v) list \<Rightarrow> (string \<times> 'v) list" where
  "insert_index k v [] = [(k, v)]"
| "insert_index k v ((k', v') # ps) =
     (if is_array_index k' \<and> index_value k' < index_value k
      then (k', v') # insert_index k v ps
      else (k, v) # (k', v') # ps)"

fun replace_property :: "string \<Rightarrow> 'v \<Rightarrow> (string \<times> 'v) list \<Rightarrow> (string \<times> 'v) list" where
  "replace_property k v [] = []"
| "replace_property k v ((k', v') # ps) =
     (if k' = k then (k, v) # ps else (k', v') # replace_property k v ps)"

definition set_property :: "string \<Rightarrow> 'v \<Rightarrow> (string \<times> 'v) list \<Rightarrow> (string \<times> 'v) list" where
  "set_property k v ps =
     (case map_of ps k of
        Some old \<Rightarrow> replace_property k v ps
      | None \<Rightarrow> if is_array_index k then insert_index k v ps else ps @ [(k, v)])"

definition scanResult :: "BarcodeScannerState \<Rightarrow> string \<Rightarrow> BarcodeScanResults option" where
  "scanResult state k = map_of (scanResults state) k"

definition empty_object :: BarcodeScanResults where
  "empty_object =
     \<lparr>displayValue = None, format = None, cornerPoints = None, count = None,
      searchStatus = None, timestamp = None, ref = 0\<rparr>"

text \<open>
  \<^verbatim>\<open>state.scanResults\<close> is a plain object, so a key without an own property is looked up
  in \<^verbatim>\<open>Object.prototype\<close>. Its members are functions, and \<^verbatim>\<open>__proto__\<close> reads as the
  prototype object itself: each is truthy, has no own enumerable property (its spread is
  empty) and has no \<^verbatim>\<open>count\<close>. In what the updaters do with it, such a value is an object
  without properties. A computed key \<^verbatim>\<open>[k]\<close> of an object literal always defines an own
  property, which then hides the inherited member.
\<close>

definition Object_prototype :: "string list" where
  "Object_prototype =
     [''constructor'', ''__defineGetter__'', ''__defineSetter__'', ''hasOwnProperty'',
      ''__lookupGetter__'', ''__lookupSetter__'', ''isPrototypeOf'', ''propertyIsEnumerable'',
      ''toString'', ''valueOf'', ''__proto__'', ''toLocaleString'']"

definition inherited :: "string \<Rightarrow> bool" where
  "inherited k = (k \<in> set Object_prototype)"

text \<open>The value of \<^verbatim>\<open>state.scanResults[k]\<close>; \<open>None\<close> is \<^verbatim>\<open>undefined\<close>.\<close>

definition scanResults_get :: "BarcodeScannerState \<Rightarrow> string \<Rightarrow> BarcodeScanResults option" where
  "scanResults_get state k =
     (case scanResult state k of
        Some own \<Rightarrow> Some own
      | None \<Rightarrow> if inherited k then Some empty_object else None)"

text \<open>\<^verbatim>\<open>{...obj, ...barcode}\<close>: the own properties of the event override those of \<open>obj\<close>.\<close>

definition spread_barcode :: "Barcode \<Rightarrow> BarcodeScanResults \<Rightarrow> BarcodeScanResults" where
  "spread_barcode barcode obj =
     obj\<lparr>displayValue := Some (barcode_displayValue barcode),
         format := Some (barcode_format barcode),
         cornerPoints :=
           (case barcode_cornerPoints barcode of
              Some ps \<Rightarrow> Some ps
            | None \<Rightarrow> cornerPoints obj)\<rparr>"

text \<open>\<^verbatim>\<open>x.count + 1\<close>: an absent count reads as \<^verbatim>\<open>undefined\<close>, and the sum is \<^verbatim>\<open>NaN\<close>.\<close>

fun plus_one :: "number option \<Rightarrow> number" where
  "plus_one (Some (Num n)) = Num (n + 1)"
| "plus_one (Some NaN) = NaN"
| "plus_one None = NaN"

subsection \<open>Updaters\<close>

definition updateScanResults ::
  "revision \<Rightarrow> int \<Rightarrow> Barcode \<Rightarrow> BarcodeScannerState \<Rightarrow> BarcodeScannerState" where
  "updateScanResults rv now barcode state =
     state\<lparr>scanResults :=
        set_property (barcode_displayValue barcode)
          (case scanResults_get state (barcode_displayValue barcode) of
             Some existing \<Rightarrow>
               (case rv of
                  First \<Rightarrow>
                    existing\<lparr>count := Some (plus_one (count existing)),
                             ref := allocated state\<rparr>
                | Second \<Rightarrow>
                    (spread_barcode barcode existing)
                      \<lparr>count := Some (plus_one (count existing)),
                       timestamp := Some now,
                       ref := allocated state\<rparr>)
           | None \<Rightarrow>
               (case rv of
                  First \<Rightarrow>
                    (spread_barcode barcode empty_object)
                      \<lparr>count := Some (Num 1),
                       searchStatus := Some scanned,
                       ref := allocated state\<rparr>
                | Second \<Rightarrow>
                    (spread_barcode barcode empty_object)
                      \<lparr>count := Some (Num 1),
                       searchStatus := Some scanned,
                       timestamp := Some now,
                       ref := allocated state\<rparr>))
          (scanResults state),
      allocated := Suc (allocated state)\<rparr>"

definition updateBarcodeSearchStatus ::
  "string \<Rightarrow> BarcodeSearchStatus \<Rightarrow> BarcodeScannerState \<Rightarrow> BarcodeScannerState" where
  "updateBarcodeSearchStatus barcodeValue status state =
     state\<lparr>scanResults :=
        set_property barcodeValue
          ((case scanResults_get state barcodeValue of
              Some existing \<Rightarrow> existing
            | None \<Rightarrow> empty_object)
             \<lparr>searchStatus := Some status, ref := allocated state\<rparr>)
          (scanResults state),
      allocated := Suc (allocated state)\<rparr>"

subsection \<open>Selectors\<close>

text \<open>
  \<^verbatim>\<open>item.count >= POSITIVE_SCAN_THRESHOLD\<close> and \<^verbatim>\<open>barcode?.count === POSITIVE_SCAN_THRESHOLD\<close>:
  both are false of an absent count and of \<^verbatim>\<open>NaN\<close>.
\<close>

fun at_least_threshold :: "number option \<Rightarrow> bool" where
  "at_least_threshold (Some (Num n)) = (POSITIVE_SCAN_THRESHOLD \<le> n)"
| "at_least_threshold (Some NaN) = False"
| "at_least_threshold None = False"

fun equals_threshold :: "number option \<Rightarrow> bool" where
  "equals_threshold (Some (Num n)) = (n = POSITIVE_SCAN_THRESHOLD)"
| "equals_threshold (Some NaN) = False"
| "equals_threshold None = False"

text \<open>
  The comparator \<^verbatim>\<open>(a, b) => b.count - a.count\<close> and the array's stable sort: an element
  moves behind another only where the comparator is positive. On the filtered array every
  count is a number.
\<close>

fun minus_number :: "number option \<Rightarrow> number option \<Rightarrow> number" where
  "minus_number (Some (Num m)) (Some (Num n)) = Num (m - n)"
| "minus_number x y = NaN"

fun is_positive :: "number \<Rightarrow> bool" where
  "is_positive (Num n) = (0 < n)"
| "is_positive NaN = False"

definition compare_count :: "BarcodeScanResults \<Rightarrow> BarcodeScanResults \<Rightarrow> number" where
  "compare_count a b = minus_number (count b) (count a)"

fun sort_insert :: "('a \<Rightarrow> 'a \<Rightarrow> number) \<Rightarrow> 'a \<Rightarrow> 'a list \<Rightarrow> 'a list" where
  "sort_insert cmp x [] = [x]"
| "sort_insert cmp x (y # ys) =
     (if is_positive (cmp x y) then y # sort_insert cmp x ys else x # y # ys)"

definition array_sort :: "('a \<Rightarrow> 'a \<Rightarrow> number) \<Rightarrow> 'a list \<Rightarrow> 'a list" where
  "array_sort cmp xs = foldr (sort_insert cmp) xs []"

definition object_values :: "(string \<times> 'v) list \<Rightarrow> 'v list" where
  "object_values ps = map snd ps"

definition barcodesFilteredArray ::
  "(string \<times> BarcodeScanResults) list \<Rightarrow> BarcodeScanResults list" where
  "barcodesFilteredArray barcodes =
     array_sort compare_count
       (filter (\<lambda>item. at_least_threshold (count item)) (object_values barcodes))"

text \<open>\<^verbatim>\<open>barcodes.slice(-1)[0]\<close>: the last element, \<^verbatim>\<open>undefined\<close> on the empty array.\<close>

definition newBarcode_projector :: "BarcodeScanResults list \<Rightarrow> BarcodeScanResults option" where
  "newBarcode_projector barcodes = (if barcodes = [] then None else Some (last barcodes))"

text \<open>The two filters behind the projector: \<^verbatim>\<open>isNotNullOrUndefined\<close>, then the count test.\<close>

definition newBarcode_filters :: "BarcodeScanResults option \<Rightarrow> BarcodeScanResults option" where
  "newBarcode_filters selected =
     (case selected of
        None \<Rightarrow> None
      | Some barcode \<Rightarrow> if equals_threshold (count barcode) then Some barcode else None)"

text \<open>What one snapshot of the store makes \<^verbatim>\<open>newBarcode$\<close> offer, before any comparison
  with the previous snapshot.\<close>

definition newBarcode :: "BarcodeScannerState \<Rightarrow> BarcodeScanResults option" where
  "newBarcode state =
     newBarcode_filters (newBarcode_projector (barcodesFilteredArray (scanResults state)))"

record BarcodeView =
  view_count :: "number option"
  view_value :: "string option"
  view_searchStatus :: "BarcodeSearchStatus option"

definition barcodesView :: "BarcodeScanResults list \<Rightarrow> BarcodeView list" where
  "barcodesView array =
     map (\<lambda>barcode.
       \<lparr>view_count = count barcode, view_value = displayValue barcode,
        view_searchStatus = searchStatus barcode\<rparr>) array"

subsection \<open>The verification effect\<close>

definition isMatch :: "string \<Rightarrow> bool" where
  "isMatch barcodeValue = (prefix ''S'' barcodeValue \<or> prefix ''CAT'' barcodeValue)"

datatype exception = TypeError

datatype canvas_call =
    ClearRect
  | BeginPath
  | MoveTo rat rat
  | LineTo rat rat
  | ClosePath
  | Stroke

datatype side_effect =
    StopScan
  | Beep BarcodeSearchStatus
  | Search string
  | Draw "canvas_call list"
  | Unhandled exception

record request =
  request_barcode :: BarcodeScanResults
  request_matched :: bool

text \<open>
  The projection inside \<^verbatim>\<open>mergeMap\<close> builds \<^verbatim>\<open>{ barcode, matched }\<close> at once and delays
  its delivery. \<^verbatim>\<open>isMatch\<close> of an absent \<^verbatim>\<open>displayValue\<close> calls \<^verbatim>\<open>startsWith\<close> on
  \<^verbatim>\<open>undefined\<close> and throws. The delay is computed from \<^verbatim>\<open>Math.random()\<close>, a number
  \<open>0 \<le> random < 1\<close>, and from nothing else.
\<close>

definition searchNewBarcodes_request :: "BarcodeScanResults \<Rightarrow> exception + request" where
  "searchNewBarcodes_request b =
     (case displayValue b of
        None \<Rightarrow> Inl TypeError
      | Some v \<Rightarrow> Inr \<lparr>request_barcode = b, request_matched = isMatch v\<rparr>)"

definition searchNewBarcodes_delay :: "revision \<Rightarrow> rat \<Rightarrow> int" where
  "searchNewBarcodes_delay rv random =
     API_LATENCY_MS rv + \<lfloor>random * of_int (API_LATENCY_MS rv)\<rfloor>"

text \<open>A computed key that is \<^verbatim>\<open>undefined\<close> is the property name \<^verbatim>\<open>"undefined"\<close>.\<close>

definition property_key :: "string option \<Rightarrow> string" where
  "property_key v = (case v of Some k \<Rightarrow> k | None \<Rightarrow> ''undefined'')"

text \<open>The \<^verbatim>\<open>tap\<close> that receives the delayed result: the calls it makes, in order, and the
  state after \<^verbatim>\<open>updateBarcodeSearchStatus\<close>.\<close>

definition searchNewBarcodes_response ::
  "request \<Rightarrow> BarcodeScannerState \<Rightarrow> side_effect list \<times> BarcodeScannerState" where
  "searchNewBarcodes_response response state =
     ((if request_matched response
       then (if \<not> KEEP_SCANNING_AFTER_MATCH then [StopScan] else []) @ [Beep matched]
       else [Beep rejected]),
      updateBarcodeSearchStatus (property_key (displayValue (request_barcode response)))
        (if request_matched response then matched else rejected) state)"

subsubsection \<open>The overlay view\<close>

text \<open>
  \<^verbatim>\<open>drawBoxes\<close> runs over the array it is given; the \<open>i\<close>-th iteration reads the clock
  as \<open>clock i\<close>. Reading \<^verbatim>\<open>timestamp.getTime()\<close> of an object without a timestamp throws.
  Each coordinate is multiplied by \<^verbatim>\<open>scale = 0.36\<close>.
\<close>

definition isStale :: "int \<Rightarrow> BarcodeScanResults \<Rightarrow> exception + bool" where
  "isStale now filteredScanResult =
     (case timestamp filteredScanResult of
        None \<Rightarrow> Inl TypeError
      | Some t \<Rightarrow> Inr (now - t > 1000))"

definition scale :: rat where
  "scale = 36 / 100"

fun path_calls :: "nat \<Rightarrow> point list \<Rightarrow> canvas_call list" where
  "path_calls index [] = []"
| "path_calls index ((x, y) # ps) =
     (if index = 0 then MoveTo (x * scale) (y * scale) else LineTo (x * scale) (y * scale))
       # path_calls (Suc index) ps"

definition drawBox :: "int \<Rightarrow> BarcodeScanResults \<Rightarrow> exception + canvas_call list" where
  "drawBox now filteredScanResult =
     (case isStale now filteredScanResult of
        Inl e \<Rightarrow> Inl e
      | Inr stale \<Rightarrow>
          (case cornerPoints filteredScanResult of
             None \<Rightarrow> Inr []
           | Some ps \<Rightarrow>
               if \<not> stale then Inr ([BeginPath] @ path_calls 0 ps @ [ClosePath, Stroke])
               else Inr []))"

text \<open>The loop returns the canvas calls made, and the exception that ended it, if any.\<close>

fun drawBoxes_loop ::
  "(nat \<Rightarrow> int) \<Rightarrow> nat \<Rightarrow> BarcodeScanResults list \<Rightarrow> canvas_call list \<times> exception option" where
  "drawBoxes_loop clock i [] = ([], None)"
| "drawBoxes_loop clock i (r # rs) =
     (case drawBox (clock i) r of
        Inl e \<Rightarrow> ([], Some e)
      | Inr calls \<Rightarrow>
          (case drawBoxes_loop clock (Suc i) rs of
             (later, thrown) \<Rightarrow> (calls @ later, thrown)))"

definition drawBoxes ::
  "bool \<Rightarrow> (nat \<Rightarrow> int) \<Rightarrow> BarcodeScanResults list \<Rightarrow> canvas_call list \<times> exception option" where
  "drawBoxes canvas clock filteredScanResults =
     (if canvas
      then (case drawBoxes_loop clock 0 filteredScanResults of
              (calls, thrown) \<Rightarrow> (ClearRect # calls, thrown))
      else ([], None))"

subsection \<open>The component: what the constructor wires together\<close>

text \<open>
  The component state of the model: the store; the delayed results not yet delivered;
  for the second revision the value that \<^verbatim>\<open>distinctUntilChanged\<close> of \<^verbatim>\<open>newBarcode$\<close> saw
  last (an object identity, or \<open>None\<close> for \<^verbatim>\<open>undefined\<close>); for the first revision the array
  that \<^verbatim>\<open>pairwise\<close> holds; whether the subscriptions of the two effects are alive (an
  exception in an effect ends its subscription); whether the overlay canvas exists; and
  the calls made so far, oldest first.
\<close>

record Component =
  store :: BarcodeScannerState
  in_flight :: "request list"
  selected :: "nat option"
  previous :: "BarcodeScanResults list"
  searching :: bool
  drawing :: bool
  canvas :: bool
  effects :: "side_effect list"

definition initial_component :: "bool \<Rightarrow> Component" where
  "initial_component cv =
     \<lparr>store = initial_state, in_flight = [], selected = None, previous = [],
      searching = True, drawing = True, canvas = cv, effects = []\<rparr>"

text \<open>
  What happens to the component: the listener delivers a barcode (the clock reading is
  that of \<^verbatim>\<open>new Date()\<close> in the updater), or the delay of the \<open>i\<close>-th pending result
  expires. Results of different requests arrive in any order.
\<close>

datatype event = BarcodeScanned Barcode int | ApiResponse nat

fun handle :: "revision \<Rightarrow> event \<Rightarrow> Component \<Rightarrow> Component" where
  "handle rv (BarcodeScanned b now) c = c\<lparr>store := updateScanResults rv now b (store c)\<rparr>"
| "handle rv (ApiResponse i) c =
     (if i < length (in_flight c)
      then (case searchNewBarcodes_response (in_flight c ! i) (store c) of
              (calls, state') \<Rightarrow>
                c\<lparr>store := state',
                  in_flight := take i (in_flight c) @ drop (Suc i) (in_flight c),
                  effects := effects c @ calls\<rparr>)
      else c)"

text \<open>\<^verbatim>\<open>searchNewBarcodes\<close> receives a value of \<^verbatim>\<open>newBarcode$\<close>.\<close>

definition search :: "BarcodeScanResults \<Rightarrow> Component \<Rightarrow> Component" where
  "search b c =
     (if searching c
      then (case searchNewBarcodes_request b of
              Inl e \<Rightarrow> c\<lparr>searching := False, in_flight := [], effects := effects c @ [Unhandled e]\<rparr>
            | Inr req \<Rightarrow>
                c\<lparr>in_flight := in_flight c @ [req],
                  effects := effects c @ [Search (property_key (displayValue (request_barcode req)))]\<rparr>)
      else c)"

definition draw :: "(nat \<Rightarrow> int) \<Rightarrow> BarcodeScanResults list \<Rightarrow> Component \<Rightarrow> Component" where
  "draw clock array c =
     (if drawing c
      then (case drawBoxes (canvas c) clock array of
              (calls, Some e) \<Rightarrow>
                c\<lparr>drawing := False, effects := effects c @ [Draw calls, Unhandled e]\<rparr>
            | (calls, None) \<Rightarrow> c\<lparr>effects := effects c @ [Draw calls]\<rparr>)
      else c)"

text \<open>
  First revision: every new state runs the plain \<^verbatim>\<open>map\<close> pipelines. The effect was
  subscribed first, the \<^verbatim>\<open>pairwise\<close> beep second.
\<close>

definition selectors_First :: "Component \<Rightarrow> Component" where
  "selectors_First c =
     (let array = barcodesFilteredArray (scanResults (store c));
          c1 = (case newBarcode_filters (newBarcode_projector array) of
                  Some b \<Rightarrow> search b c
                | None \<Rightarrow> c);
          c2 = (if length (previous c1) \<noteq> length array
                then c1\<lparr>effects := effects c1 @ [Beep scanned]\<rparr>
                else c1)
      in c2\<lparr>previous := array\<rparr>)"

text \<open>
  Second revision: the selectors are debounced, so they see the state once the running
  task has ended. \<^verbatim>\<open>drawBoxes\<close> receives the new array; \<^verbatim>\<open>newBarcode$\<close> passes the
  projected object on only if it is not the object it passed last, and then both its
  subscribers run: the effect, then the beep.
\<close>

definition selectors_Second :: "(nat \<Rightarrow> int) \<Rightarrow> Component \<Rightarrow> Component" where
  "selectors_Second clock c =
     (let array = barcodesFilteredArray (scanResults (store c));
          c1 = draw clock array c;
          projected = newBarcode_projector array
      in if map_option ref projected = selected c1 then c1
         else (case newBarcode_filters projected of
                 None \<Rightarrow> c1\<lparr>selected := map_option ref projected\<rparr>
               | Some b \<Rightarrow>
                   (let c2 = search b (c1\<lparr>selected := map_option ref projected\<rparr>)
                    in c2\<lparr>effects := effects c2 @ [Beep scanned]\<rparr>)))"

text \<open>
  A task is the list of events handled before control returns to the event loop, with
  the clock of the drawing that follows it. An event that replaces the state allocates.
\<close>

fun task :: "revision \<Rightarrow> event list \<times> (nat \<Rightarrow> int) \<Rightarrow> Component \<Rightarrow> Component" where
  "task First (events, clock) c =
     foldl (\<lambda>c e. let c' = handle First e c
                   in if allocated (store c') \<noteq> allocated (store c)
                      then selectors_First c' else c') c events"
| "task Second (events, clock) c =
     (let c' = foldl (\<lambda>c e. handle Second e c) c events
      in if allocated (store c') \<noteq> allocated (store c)
         then selectors_Second clock c' else c')"

definition run :: "revision \<Rightarrow> (event list \<times> (nat \<Rightarrow> int)) list \<Rightarrow> Component \<Rightarrow> Component" where
  "run rv tasks c = foldl (\<lambda>c t. task rv t c) c tasks"

text \<open>The values for which a verification was dispatched, oldest first.\<close>

fun searches :: "side_effect list \<Rightarrow> string list" where
  "searches [] = []"
| "searches (Search v # es) = v # searches es"
| "searches (e # es) = searches es"

section \<open>Notions the properties are stated with\<close>

subsection \<open>Sequences of detections\<close>

text \<open>A sequence of detections, each with the clock reading of its update.\<close>

definition detections ::
  "revision \<Rightarrow> (Barcode \<times> int) list \<Rightarrow> BarcodeScannerState \<Rightarrow> BarcodeScannerState" where
  "detections rv events state = foldl (\<lambda>s e. updateScanResults rv (snd e) (fst e) s) state events"

subsection \<open>The invariant of every run\<close>

text \<open>
  The status a verification writes is a function of the value: \<open>outcome\<close>. In every state
  the component reaches, an entry whose key is not a member of \<^verbatim>\<open>Object.prototype\<close> holds
  an object that carries the key as \<open>displayValue\<close> and whose status is \<open>scanned\<close> or the
  outcome of the key; an entry whose key is such a member holds an object whose count is
  not a number and that has no status; and each pending result is for a key of the store
  that is not such a member, and carries \<open>isMatch\<close> of that key.
\<close>

fun is_number :: "number option \<Rightarrow> bool" where
  "is_number (Some (Num n)) = True"
| "is_number (Some NaN) = False"
| "is_number None = False"

definition outcome :: "string \<Rightarrow> BarcodeSearchStatus" where
  "outcome v = (if isMatch v then matched else rejected)"

definition entry_ok :: "string \<Rightarrow> BarcodeScanResults \<Rightarrow> bool" where
  "entry_ok k r =
     (if inherited k
      then \<not> is_number (count r) \<and> searchStatus r = None
      else displayValue r = Some k
        \<and> (searchStatus r = Some scanned \<or> searchStatus r = Some (outcome k)))"

definition store_ok :: "BarcodeScannerState \<Rightarrow> bool" where
  "store_ok state = (\<forall>(k, r) \<in> set (scanResults state). entry_ok k r)"

definition request_ok :: "BarcodeScannerState \<Rightarrow> request \<Rightarrow> bool" where
  "request_ok state q =
     (\<exists>k. displayValue (request_barcode q) = Some k \<and> request_matched q = isMatch k
        \<and> scanResult state k \<noteq> None \<and> \<not> inherited k)"

definition component_ok :: "Component \<Rightarrow> bool" where
  "component_ok c = (store_ok (store c) \<and> (\<forall>q \<in> set (in_flight c). request_ok (store c) q))"



subsection \<open>What the overlay receives\<close>

text \<open>The canvas calls that stroke the box of a record, and what one iteration of
  \<open>drawBoxes\<close> contributes for a record that has a timestamp.\<close>

fun box_calls :: "BarcodeScanResults \<Rightarrow> canvas_call list" where
  "box_calls r =
     (case cornerPoints r of
        None \<Rightarrow> []
      | Some ps \<Rightarrow> [BeginPath] @ path_calls 0 ps @ [ClosePath, Stroke])"

definition overlay_calls :: "int \<Rightarrow> BarcodeScanResults \<Rightarrow> canvas_call list" where
  "overlay_calls now r =
     (case timestamp r of
        None \<Rightarrow> []
      | Some t \<Rightarrow> if cornerPoints r \<noteq> None \<and> now - t \<le> 1000 then box_calls r else [])"

subsection \<open>Sample data for the concrete runs\<close>

definition sample_barcode :: "string \<Rightarrow> Barcode" where
  "sample_barcode v =
     \<lparr>barcode_displayValue = v, barcode_format = ''QR_CODE'', barcode_cornerPoints = None\<rparr>"

definition sample_result :: "string \<Rightarrow> int \<Rightarrow> BarcodeSearchStatus \<Rightarrow> BarcodeScanResults" where
  "sample_result v n status =
     \<lparr>displayValue = Some v, format = Some ''QR_CODE'',
      cornerPoints = Some [(100, 50), (200, 50), (200, 150), (100, 150)],
      count = Some (Num n), searchStatus = Some status, timestamp = Some 0, ref = 0\<rparr>"

definition sample_state :: "(string \<times> int \<times> BarcodeSearchStatus) list \<Rightarrow> BarcodeScannerState" where
  "sample_state entries =
     \<lparr>scanResults = map (\<lambda>(v, n, status). (v, sample_result v n status)) entries,
      allocated = length entries\<rparr>"

text \<open>A task that handles one event.\<close>

definition alone :: "event \<Rightarrow> event list \<times> (nat \<Rightarrow> int)" where
  "alone e = ([e], \<lambda>i. 0)"

section \<open>Properties\<close>

subsection \<open>Lookup after an update\<close>

lemma map_of_replace_property:
  "map_of ps k = Some old \<Longrightarrow> map_of (replace_property k v ps) = (map_of ps)(k \<mapsto> v)"
  by (induction ps) (auto simp: fun_eq_iff)

lemma map_of_insert_index:
  "map_of ps k = None \<Longrightarrow> map_of (insert_index k v ps) = (map_of ps)(k \<mapsto> v)"
  by (induction ps) (auto simp: fun_eq_iff split: if_splits)

lemma map_of_set_property:
  "map_of (set_property k v ps) = (map_of ps)(k \<mapsto> v)"
  by (auto simp: set_property_def map_of_replace_property map_of_insert_index fun_eq_iff
      map_add_def split: option.splits)

lemma scanResults_get_own [simp]:
  "scanResult state k = Some own \<Longrightarrow> scanResults_get state k = Some own"
  by (simp add: scanResults_get_def)

lemma scanResults_get_absent [simp]:
  "scanResult state k = None \<Longrightarrow> \<not> inherited k \<Longrightarrow> scanResults_get state k = None"
  by (simp add: scanResults_get_def)

lemma scanResults_get_inherited [simp]:
  "scanResult state k = None \<Longrightarrow> inherited k \<Longrightarrow> scanResults_get state k = Some empty_object"
  by (simp add: scanResults_get_def)

lemma scanResult_updateScanResults_other:
  "k \<noteq> barcode_displayValue barcode \<Longrightarrow>
   scanResult (updateScanResults rv now barcode state) k = scanResult state k"
  by (simp add: scanResult_def updateScanResults_def map_of_set_property)

lemma scanResult_updateBarcodeSearchStatus_other:
  "k \<noteq> v \<Longrightarrow> scanResult (updateBarcodeSearchStatus v status state) k = scanResult state k"
  by (simp add: scanResult_def updateBarcodeSearchStatus_def map_of_set_property)

lemma scanResult_updateScanResults_same:
  "scanResult (updateScanResults rv now barcode state) (barcode_displayValue barcode) =
     Some (case scanResults_get state (barcode_displayValue barcode) of
             Some existing \<Rightarrow>
               (case rv of
                  First \<Rightarrow>
                    existing\<lparr>count := Some (plus_one (count existing)),
                             ref := allocated state\<rparr>
                | Second \<Rightarrow>
                    (spread_barcode barcode existing)
                      \<lparr>count := Some (plus_one (count existing)),
                       timestamp := Some now,
                       ref := allocated state\<rparr>)
           | None \<Rightarrow>
               (case rv of
                  First \<Rightarrow>
                    (spread_barcode barcode empty_object)
                      \<lparr>count := Some (Num 1),
                       searchStatus := Some scanned,
                       ref := allocated state\<rparr>
                | Second \<Rightarrow>
                    (spread_barcode barcode empty_object)
                      \<lparr>count := Some (Num 1),
                       searchStatus := Some scanned,
                       timestamp := Some now,
                       ref := allocated state\<rparr>))"
  by (simp add: scanResult_def updateScanResults_def map_of_set_property)

lemma scanResult_updateScanResults_absent:
  "scanResult state (barcode_displayValue barcode) = None \<Longrightarrow>
   \<not> inherited (barcode_displayValue barcode) \<Longrightarrow>
   scanResult (updateScanResults rv now barcode state) (barcode_displayValue barcode) =
     Some ((spread_barcode barcode empty_object)
       \<lparr>count := Some (Num 1), searchStatus := Some scanned,
        timestamp := (case rv of First \<Rightarrow> None | Second \<Rightarrow> Some now),
        ref := allocated state\<rparr>)"
  by (cases rv)
    (simp_all add: scanResult_updateScanResults_same spread_barcode_def empty_object_def)

lemma scanResult_updateScanResults_First:
  "scanResult state (barcode_displayValue barcode) = Some existing \<Longrightarrow>
   scanResult (updateScanResults First now barcode state) (barcode_displayValue barcode) =
     Some (existing\<lparr>count := Some (plus_one (count existing)), ref := allocated state\<rparr>)"
  by (simp add: scanResult_updateScanResults_same)

lemma scanResult_updateScanResults_Second:
  "scanResult state (barcode_displayValue barcode) = Some existing \<Longrightarrow>
   scanResult (updateScanResults Second now barcode state) (barcode_displayValue barcode) =
     Some ((spread_barcode barcode existing)
       \<lparr>count := Some (plus_one (count existing)), timestamp := Some now,
        ref := allocated state\<rparr>)"
  by (simp add: scanResult_updateScanResults_same)

lemma scanResult_updateBarcodeSearchStatus_same:
  "scanResult (updateBarcodeSearchStatus v status state) v =
     Some ((case scanResult state v of Some existing \<Rightarrow> existing | None \<Rightarrow> empty_object)
       \<lparr>searchStatus := Some status, ref := allocated state\<rparr>)"
  by (simp add: scanResult_def scanResults_get_def updateBarcodeSearchStatus_def
      map_of_set_property split: option.splits)

subsection \<open>Counting detections\<close>

lemma count_updateScanResults_present:
  assumes "scanResult state (barcode_displayValue b) = Some r" and "count r = Some (Num c)"
  shows "\<exists>r'. scanResult (updateScanResults rv now b state) (barcode_displayValue b) = Some r'
           \<and> count r' = Some (Num (c + 1))"
  using assms
  by (cases rv)
    (simp_all add: scanResult_updateScanResults_First scanResult_updateScanResults_Second
      spread_barcode_def)

lemma count_updateScanResults_absent:
  assumes "scanResult state (barcode_displayValue b) = None"
    and "\<not> inherited (barcode_displayValue b)"
  shows "\<exists>r'. scanResult (updateScanResults rv now b state) (barcode_displayValue b) = Some r'
           \<and> count r' = Some (Num 1)"
  using assms by (simp add: scanResult_updateScanResults_absent)

lemma detections_present:
  assumes "\<forall>e \<in> set events. barcode_displayValue (fst e) = v"
    and "scanResult state v = Some r" and "count r = Some (Num c)"
  shows "\<exists>r'. scanResult (detections rv events state) v = Some r'
           \<and> count r' = Some (Num (c + int (length events)))"
  using assms
proof (induction events arbitrary: state r c)
  case Nil
  then show ?case by (simp add: detections_def)
next
  case (Cons e events)
  from Cons.prems(1) have key: "barcode_displayValue (fst e) = v" by simp
  from count_updateScanResults_present [of state "fst e" r c rv "snd e"] Cons.prems key
  obtain r1 where r1: "scanResult (updateScanResults rv (snd e) (fst e) state) v = Some r1"
      "count r1 = Some (Num (c + 1))"
    by auto
  from Cons.prems(1) have rest: "\<forall>e \<in> set events. barcode_displayValue (fst e) = v" by simp
  from Cons.IH [OF rest r1]
  show ?case by (simp add: detections_def ac_simps)
qed

lemma detections_other:
  assumes "\<forall>e \<in> set events. barcode_displayValue (fst e) = v" and "k \<noteq> v"
  shows "scanResult (detections rv events state) k = scanResult state k"
  using assms
proof (induction events arbitrary: state)
  case Nil
  then show ?case by (simp add: detections_def)
next
  case (Cons e events)
  then have "scanResult (detections rv events (updateScanResults rv (snd e) (fst e) state)) k
      = scanResult (updateScanResults rv (snd e) (fst e) state) k"
    by simp
  also have "\<dots> = scanResult state k"
    using Cons.prems by (simp add: scanResult_updateScanResults_other)
  finally show ?case by (simp add: detections_def)
qed

lemma detections_absent:
  assumes "\<forall>e \<in> set events. barcode_displayValue (fst e) = v"
    and "scanResult state v = None" and "events \<noteq> []" and "\<not> inherited v"
  shows "\<exists>r'. scanResult (detections rv events state) v = Some r'
           \<and> count r' = Some (Num (int (length events)))"
proof (cases events)
  case Nil
  with assms show ?thesis by simp
next
  case (Cons e rest)
  from assms(1) Cons have key: "barcode_displayValue (fst e) = v" by simp
  from count_updateScanResults_absent [of state "fst e" rv "snd e"] assms(2,4) key
  obtain r1 where r1: "scanResult (updateScanResults rv (snd e) (fst e) state) v = Some r1"
      "count r1 = Some (Num 1)"
    by auto
  from assms(1) Cons have "\<forall>e \<in> set rest. barcode_displayValue (fst e) = v" by simp
  from detections_present [OF this r1, of rv]
  show ?thesis using Cons by (simp add: detections_def add.commute)
qed

text \<open>
  Let every event of a sequence carry the value \<open>v\<close>. Where \<open>v\<close> has a record with a
  numeric count, or has none and is not the name of a member of \<^verbatim>\<open>Object.prototype\<close>, the
  record under \<open>v\<close> after the sequence counts its events on top of the count it had. The
  entry of every other key is the one it was, whatever \<open>v\<close> is.
\<close>

lemma detections_count_and_isolation:
  assumes "\<forall>e \<in> set events. barcode_displayValue (fst e) = v"
  shows "(\<forall>r c. scanResult state v = Some r \<and> count r = Some (Num c) \<longrightarrow>
            (\<exists>r'. scanResult (detections rv events state) v = Some r'
                \<and> count r' = Some (Num (c + int (length events)))))
       \<and> (scanResult state v = None \<and> \<not> inherited v \<and> events \<noteq> [] \<longrightarrow>
            (\<exists>r'. scanResult (detections rv events state) v = Some r'
                \<and> count r' = Some (Num (int (length events)))))
       \<and> (\<forall>k. k \<noteq> v \<longrightarrow> scanResult (detections rv events state) k = scanResult state k)"
  using assms detections_present detections_absent detections_other by blast

text \<open>
  C2 on the code. The updater decides between creating and incrementing by the
  truthiness of \<^verbatim>\<open>state.scanResults[barcode.displayValue]\<close>. For a barcode whose text is
  \<open>constructor\<close> the read finds the inherited member, so the first detection already
  takes the incrementing branch: the count is \<^verbatim>\<open>undefined + 1\<close>, which is \<^verbatim>\<open>NaN\<close>, and stays
  so. After three detections from the initial state the count is not 3 in either
  revision, and the ranked array is empty.
\<close>

theorem updateScanResults_inherited_key_count:
  "map_option count
     (scanResult
        (detections Second
           [(sample_barcode ''constructor'', 10), (sample_barcode ''constructor'', 20),
            (sample_barcode ''constructor'', 30)] initial_state) ''constructor'')
     = Some (Some NaN)
   \<and> map_option count
     (scanResult
        (detections First
           [(sample_barcode ''constructor'', 10), (sample_barcode ''constructor'', 20),
            (sample_barcode ''constructor'', 30)] initial_state) ''constructor'')
     = Some (Some NaN)
   \<and> barcodesFilteredArray (scanResults
        (detections Second
           [(sample_barcode ''constructor'', 10), (sample_barcode ''constructor'', 20),
            (sample_barcode ''constructor'', 30)] initial_state)) = []
   \<and> map_option count
     (scanResult
        (detections Second
           [(sample_barcode ''S1'', 10), (sample_barcode ''S1'', 20),
            (sample_barcode ''S1'', 30)] initial_state) ''S1'')
     = Some (Some (Num 3))"
  by code_simp

subsection \<open>A detection of a value that has a record\<close>

text \<open>
  C7, as stated, fails on the first revision: its updater copies the existing record and
  changes the count only. Two detections of \<open>S1\<close> with different corner points leave the
  corner points of the first, and no timestamp.
\<close>

theorem updateScanResults_First_keeps_geometry_counterexample:
  "map_option cornerPoints
     (scanResult
        (updateScanResults First 5000
           \<lparr>barcode_displayValue = ''S1'', barcode_format = ''QR_CODE'',
            barcode_cornerPoints = Some [(7, 7), (17, 7), (17, 17), (7, 17)]\<rparr>
           (updateScanResults First 0
              \<lparr>barcode_displayValue = ''S1'', barcode_format = ''QR_CODE'',
               barcode_cornerPoints = Some [(0, 0), (10, 0), (10, 10), (0, 10)]\<rparr>
              initial_state)) ''S1'')
     = Some (Some [(0, 0), (10, 0), (10, 10), (0, 10)])
   \<and> map_option timestamp
     (scanResult
        (updateScanResults First 5000
           \<lparr>barcode_displayValue = ''S1'', barcode_format = ''QR_CODE'',
            barcode_cornerPoints = Some [(7, 7), (17, 7), (17, 17), (7, 17)]\<rparr>
           (updateScanResults First 0
              \<lparr>barcode_displayValue = ''S1'', barcode_format = ''QR_CODE'',
               barcode_cornerPoints = Some [(0, 0), (10, 0), (10, 10), (0, 10)]\<rparr>
              initial_state)) ''S1'')
     = Some None"
  by (simp add: scanResult_def scanResults_get_def inherited_def Object_prototype_def
      updateScanResults_def map_of_set_property initial_state_def spread_barcode_def
      empty_object_def)

text \<open>
  C7, amended. For a detection of a value that has a record, \<open>updateScanResults\<close> puts
  under the value a copy whose count is one more and whose status is the same. In the
  second revision the timestamp is the clock reading of the update, and the corner points
  are those of the event when it carries any (the old ones stay otherwise). In the first
  revision corner points and timestamp are those of the old record.
\<close>

theorem updateScanResults_present:
  assumes "scanResult state (barcode_displayValue b) = Some existing"
  shows "\<exists>r'. scanResult (updateScanResults rv now b state) (barcode_displayValue b) = Some r'
           \<and> count r' = Some (plus_one (count existing))
           \<and> (\<forall>n. count existing = Some (Num n) \<longrightarrow> count r' = Some (Num (n + 1)))
           \<and> searchStatus r' = searchStatus existing
           \<and> (rv = Second \<longrightarrow>
                 timestamp r' = Some now
               \<and> cornerPoints r' =
                   (case barcode_cornerPoints b of
                      Some ps \<Rightarrow> Some ps
                    | None \<Rightarrow> cornerPoints existing))
           \<and> (rv = First \<longrightarrow>
                 timestamp r' = timestamp existing \<and> cornerPoints r' = cornerPoints existing)"
  using assms
  by (cases rv)
    (auto simp: scanResult_updateScanResults_First scanResult_updateScanResults_Second
      spread_barcode_def)

theorem updateScanResults_present_witness:
  "\<exists>r'. scanResult
       (updateScanResults Second 5000
          \<lparr>barcode_displayValue = ''S1'', barcode_format = ''QR_CODE'',
           barcode_cornerPoints = Some [(0, 0), (10, 0), (10, 10), (0, 10)]\<rparr>
          (sample_state [(''S1'', 1, matched)])) ''S1'' = Some r'
     \<and> count r' = Some (Num 2) \<and> searchStatus r' = Some matched
     \<and> timestamp r' = Some 5000
     \<and> cornerPoints r' = Some [(0, 0), (10, 0), (10, 10), (0, 10)]"
  using updateScanResults_present
    [of "sample_state [(''S1'', 1, matched)]"
        "\<lparr>barcode_displayValue = ''S1'', barcode_format = ''QR_CODE'',
          barcode_cornerPoints = Some [(0, 0), (10, 0), (10, 10), (0, 10)]\<rparr>"
        "sample_result ''S1'' 1 matched" Second 5000]
  by (simp add: sample_state_def sample_result_def scanResult_def)

subsection \<open>A verification result for a value in terminal status\<close>

text \<open>
  C4. When the record of a value has status \<open>matched\<close> or \<open>rejected\<close>,
  \<open>updateBarcodeSearchStatus\<close> for that value, with any status, leaves a record under the
  value whose count, corner points and timestamp are those it had. The updater is a
  total function of the state: it has no failing branch.
\<close>

theorem updateBarcodeSearchStatus_keeps_count_geometry_time:
  assumes "scanResult state v = Some r"
    and "searchStatus r = Some matched \<or> searchStatus r = Some rejected"
  shows "\<exists>r'. scanResult (updateBarcodeSearchStatus v status state) v = Some r'
           \<and> count r' = count r \<and> cornerPoints r' = cornerPoints r
           \<and> timestamp r' = timestamp r"
  using assms by (simp add: scanResult_updateBarcodeSearchStatus_same)

theorem updateBarcodeSearchStatus_keeps_count_geometry_time_witness:
  "\<exists>r'. scanResult
       (updateBarcodeSearchStatus ''S1'' matched (sample_state [(''S1'', 3, matched)])) ''S1''
        = Some r'
     \<and> count r' = Some (Num 3)
     \<and> cornerPoints r' = Some [(100, 50), (200, 50), (200, 150), (100, 150)]
     \<and> timestamp r' = Some 0"
  using updateBarcodeSearchStatus_keeps_count_geometry_time
    [of "sample_state [(''S1'', 3, matched)]" "''S1''" "sample_result ''S1'' 3 matched" matched]
  by (simp add: sample_state_def sample_result_def scanResult_def)

subsection \<open>The delivery of a verification result\<close>

text \<open>
  C9. The constant \<open>KEEP_SCANNING_AFTER_MATCH\<close> is false. When a result arrives with
  \<open>matched\<close> true, the handler calls \<open>stopScan\<close> and then beeps. When it arrives with
  \<open>matched\<close> false, the handler only beeps, \<open>stopScan\<close> is not among its calls, and in the
  state it leaves the record of the value has status \<open>rejected\<close>.
\<close>

theorem searchNewBarcodes_response_stop_and_status:
  "KEEP_SCANNING_AFTER_MATCH = False
   \<and> (request_matched response \<longrightarrow>
        fst (searchNewBarcodes_response response state) = [StopScan, Beep matched])
   \<and> (\<not> request_matched response \<longrightarrow>
        fst (searchNewBarcodes_response response state) = [Beep rejected]
      \<and> StopScan \<notin> set (fst (searchNewBarcodes_response response state))
      \<and> (\<exists>r. scanResult (snd (searchNewBarcodes_response response state))
                (property_key (displayValue (request_barcode response))) = Some r
             \<and> searchStatus r = Some rejected))"
  by (simp add: searchNewBarcodes_response_def KEEP_SCANNING_AFTER_MATCH_def
      scanResult_updateBarcodeSearchStatus_same)

theorem searchNewBarcodes_response_stop_and_status_witness:
  "fst (searchNewBarcodes_response
          \<lparr>request_barcode = sample_result ''S123'' 3 scanned, request_matched = True\<rparr>
          (sample_state [(''S123'', 3, scanned)])) = [StopScan, Beep matched]
   \<and> fst (searchNewBarcodes_response
          \<lparr>request_barcode = sample_result ''X999'' 3 scanned, request_matched = False\<rparr>
          (sample_state [(''X999'', 3, scanned)])) = [Beep rejected]
   \<and> (\<exists>r. scanResult (snd (searchNewBarcodes_response
          \<lparr>request_barcode = sample_result ''X999'' 3 scanned, request_matched = False\<rparr>
          (sample_state [(''X999'', 3, scanned)]))) ''X999'' = Some r
        \<and> searchStatus r = Some rejected)"
  using searchNewBarcodes_response_stop_and_status
    [of "\<lparr>request_barcode = sample_result ''S123'' 3 scanned, request_matched = True\<rparr>"
        "sample_state [(''S123'', 3, scanned)]"]
    searchNewBarcodes_response_stop_and_status
    [of "\<lparr>request_barcode = sample_result ''X999'' 3 scanned, request_matched = False\<rparr>"
        "sample_state [(''X999'', 3, scanned)]"]
  by (simp add: sample_result_def property_key_def)

subsection \<open>The outcome of a verification\<close>

lemma isMatch_iff:
  "isMatch v \<longleftrightarrow> (\<exists>rest. v = ''S'' @ rest) \<or> (\<exists>rest. v = ''CAT'' @ rest)"
  by (auto simp: isMatch_def prefix_def)

text \<open>
  C10. The request built for an object whose \<open>displayValue\<close> is \<open>v\<close> carries the outcome
  \<open>isMatch v\<close>, which is true exactly when \<open>v\<close> begins with \<open>S\<close> or with \<open>CAT\<close>; two
  requests for the same value carry the same outcome. The random number enters
  \<open>searchNewBarcodes_delay\<close> only.
\<close>

theorem searchNewBarcodes_outcome_deterministic:
  assumes "displayValue b1 = Some v" and "displayValue b2 = Some v"
  shows "searchNewBarcodes_request b1 = Inr \<lparr>request_barcode = b1, request_matched = isMatch v\<rparr>
       \<and> searchNewBarcodes_request b2 = Inr \<lparr>request_barcode = b2, request_matched = isMatch v\<rparr>
       \<and> (isMatch v \<longleftrightarrow> (\<exists>rest. v = ''S'' @ rest) \<or> (\<exists>rest. v = ''CAT'' @ rest))"
  using assms by (simp add: searchNewBarcodes_request_def isMatch_iff)

theorem searchNewBarcodes_outcome_deterministic_witness:
  "searchNewBarcodes_request (sample_result ''CAT7'' 3 scanned)
     = Inr \<lparr>request_barcode = sample_result ''CAT7'' 3 scanned, request_matched = True\<rparr>
   \<and> searchNewBarcodes_request (sample_result ''CAT7'' 3 matched)
     = Inr \<lparr>request_barcode = sample_result ''CAT7'' 3 matched, request_matched = True\<rparr>
   \<and> isMatch ''S123'' \<and> \<not> isMatch ''X999'' \<and> \<not> isMatch ''sCAT''"
  using searchNewBarcodes_outcome_deterministic
    [of "sample_result ''CAT7'' 3 scanned" "''CAT7''" "sample_result ''CAT7'' 3 matched"]
  by (simp add: sample_result_def isMatch_def)

subsection \<open>The invariant is kept\<close>

lemma set_replace_property: "set (replace_property k v ps) \<subseteq> insert (k, v) (set ps)"
  by (induction ps) (auto split: if_splits)

lemma set_insert_index: "set (insert_index k v ps) = insert (k, v) (set ps)"
  by (induction ps) (auto split: if_splits)

lemma set_set_property: "set (set_property k v ps) \<subseteq> insert (k, v) (set ps)"
  using set_replace_property [of k v ps]
  by (auto simp: set_property_def set_insert_index split: option.splits)

lemma store_ok_set_property:
  assumes "store_ok state" and "entry_ok k v"
  shows "store_ok (state\<lparr>scanResults := set_property k v (scanResults state), allocated := n\<rparr>)"
  using assms set_set_property [of k v "scanResults state"]
  by (auto simp: store_ok_def)

lemma store_ok_lookup:
  assumes "store_ok state" and "scanResult state k = Some r"
  shows "entry_ok k r"
  using assms by (auto simp: store_ok_def scanResult_def dest: map_of_SomeD)

lemma is_number_plus_one [simp]: "is_number (Some (plus_one c)) = is_number c"
  by (cases c rule: plus_one.cases) simp_all

lemma at_least_threshold_is_number: "at_least_threshold c \<Longrightarrow> is_number c"
  by (cases c rule: is_number.cases) simp_all

lemma store_ok_updateScanResults:
  assumes "store_ok state"
  shows "store_ok (updateScanResults rv now b state)"
proof (cases "scanResult state (barcode_displayValue b)")
  case None
  then show ?thesis
    unfolding updateScanResults_def using assms
    by (cases rv; cases "inherited (barcode_displayValue b)")
      (auto intro!: store_ok_set_property
        simp: entry_ok_def spread_barcode_def empty_object_def)
next
  case (Some existing)
  with assms have "entry_ok (barcode_displayValue b) existing" by (rule store_ok_lookup)
  with Some show ?thesis
    unfolding updateScanResults_def using assms
    by (cases rv; cases "inherited (barcode_displayValue b)")
      (auto intro!: store_ok_set_property simp: entry_ok_def spread_barcode_def)
qed

lemma store_ok_updateBarcodeSearchStatus:
  assumes "store_ok state" and "scanResult state k = Some r" and "\<not> inherited k"
  shows "store_ok (updateBarcodeSearchStatus k (outcome k) state)"
proof -
  from assms(1,2) have "entry_ok k r" by (rule store_ok_lookup)
  with assms show ?thesis
    unfolding updateBarcodeSearchStatus_def
    by (auto intro!: store_ok_set_property simp: entry_ok_def)
qed

lemma present_updateScanResults:
  "scanResult state k \<noteq> None \<Longrightarrow> scanResult (updateScanResults rv now b state) k \<noteq> None"
  by (simp add: scanResult_def updateScanResults_def map_of_set_property)

lemma present_updateBarcodeSearchStatus:
  "scanResult state k \<noteq> None \<Longrightarrow> scanResult (updateBarcodeSearchStatus v status state) k \<noteq> None"
  by (simp add: scanResult_def updateBarcodeSearchStatus_def map_of_set_property)

lemma request_ok_updateScanResults:
  "request_ok state q \<Longrightarrow> request_ok (updateScanResults rv now b state) q"
  unfolding request_ok_def using present_updateScanResults by blast

lemma request_ok_updateBarcodeSearchStatus:
  "request_ok state q \<Longrightarrow> request_ok (updateBarcodeSearchStatus v status state) q"
  unfolding request_ok_def using present_updateBarcodeSearchStatus by blast

lemma response_is_outcome:
  assumes "request_ok state q"
  shows "\<exists>k r. scanResult state k = Some r \<and> \<not> inherited k
           \<and> snd (searchNewBarcodes_response q state) = updateBarcodeSearchStatus k (outcome k) state"
  using assms
  by (auto simp: request_ok_def searchNewBarcodes_response_def property_key_def outcome_def)

lemma component_ok_handle:
  assumes "component_ok c"
  shows "component_ok (handle rv e c)"
proof (cases e)
  case (BarcodeScanned b now)
  with assms show ?thesis
    by (simp add: component_ok_def store_ok_updateScanResults request_ok_updateScanResults)
next
  case (ApiResponse i)
  show ?thesis
  proof (cases "i < length (in_flight c)")
    case False
    with ApiResponse assms show ?thesis by simp
  next
    case True
    let ?q = "in_flight c ! i"
    from True assms have q: "request_ok (store c) ?q"
      by (simp add: component_ok_def)
    from response_is_outcome [OF q] obtain k r where
      k: "scanResult (store c) k = Some r" "\<not> inherited k"
        "snd (searchNewBarcodes_response ?q (store c)) = updateBarcodeSearchStatus k (outcome k) (store c)"
      by blast
    have rest: "set (take i (in_flight c) @ drop (Suc i) (in_flight c)) \<subseteq> set (in_flight c)"
      by (auto dest: in_set_takeD in_set_dropD)
    from assms k rest True ApiResponse show ?thesis
      by (auto simp: component_ok_def split_beta store_ok_updateBarcodeSearchStatus
          request_ok_updateBarcodeSearchStatus)
  qed
qed

lemma set_sort_insert: "set (sort_insert cmp x xs) = insert x (set xs)"
  by (induction xs) auto

lemma set_array_sort: "set (array_sort cmp xs) = set xs"
  by (induction xs) (auto simp: array_sort_def set_sort_insert)

lemma set_barcodesFilteredArray:
  "set (barcodesFilteredArray ps) = {r \<in> snd ` set ps. at_least_threshold (count r)}"
  by (auto simp: barcodesFilteredArray_def set_array_sort object_values_def)

lemma newBarcode_in_array:
  "newBarcode_filters (newBarcode_projector array) = Some b \<Longrightarrow> b \<in> set array"
  by (auto simp: newBarcode_filters_def newBarcode_projector_def split: if_splits)

lemma request_ok_of_store:
  assumes "store_ok state" and "b \<in> set (barcodesFilteredArray (scanResults state))"
    and "searchNewBarcodes_request b = Inr q"
  shows "request_ok state q"
proof -
  from assms(2) obtain k where k: "(k, b) \<in> set (scanResults state)"
    and number: "is_number (count b)"
    by (auto simp: set_barcodesFilteredArray dest: at_least_threshold_is_number)
  with assms(1) have "displayValue b = Some k \<and> \<not> inherited k"
    by (auto simp: store_ok_def entry_ok_def split: if_splits)
  moreover from k have "scanResult state k \<noteq> None"
    by (auto simp: scanResult_def map_of_eq_None_iff intro: rev_image_eqI)
  ultimately show ?thesis
    using assms(3) by (auto simp: request_ok_def searchNewBarcodes_request_def)
qed

lemma component_ok_search:
  assumes "component_ok c" and "b \<in> set (barcodesFilteredArray (scanResults (store c)))"
  shows "component_ok (search b c)"
  using assms request_ok_of_store [of "store c" b]
  by (auto simp: component_ok_def search_def split: sum.splits)

lemma store_search [simp]: "store (search b c) = store c"
  by (simp add: search_def split: sum.splits)

lemma store_draw [simp]: "store (draw clock array c) = store c"
  by (simp add: draw_def split: prod.splits option.splits)

lemma component_ok_draw: "component_ok c \<Longrightarrow> component_ok (draw clock array c)"
  by (simp add: component_ok_def draw_def split: prod.splits option.splits)

lemma store_selectors_First [simp]: "store (selectors_First c) = store c"
  by (simp add: selectors_First_def Let_def split: option.splits)

lemma store_selectors_Second [simp]: "store (selectors_Second clock c) = store c"
  by (simp add: selectors_Second_def Let_def split: option.splits)

lemma component_ok_effects [simp]:
  "component_ok (c\<lparr>effects := es\<rparr>) = component_ok c"
  "component_ok (c\<lparr>previous := p\<rparr>) = component_ok c"
  "component_ok (c\<lparr>selected := s\<rparr>) = component_ok c"
  by (simp_all add: component_ok_def)

lemma component_ok_selectors_First:
  assumes "component_ok c"
  shows "component_ok (selectors_First c)"
  using assms
  by (auto simp: selectors_First_def Let_def split: option.splits
      dest!: newBarcode_in_array intro!: component_ok_search)

lemma component_ok_selectors_Second:
  assumes "component_ok c"
  shows "component_ok (selectors_Second clock c)"
  using assms component_ok_draw [of c clock "barcodesFilteredArray (scanResults (store c))"]
  by (auto simp: selectors_Second_def Let_def split: option.splits
      dest!: newBarcode_in_array intro!: component_ok_search)

subsection \<open>Status transitions\<close>

lemma foldl_preserves:
  assumes "\<And>c e. P c \<Longrightarrow> P (f c e)" and "P c"
  shows "P (foldl f c es)"
  using assms(2) by (induction es arbitrary: c) (simp_all add: assms(1))

lemma component_ok_task:
  assumes "component_ok c"
  shows "component_ok (task rv t c)"
proof (cases t)
  case (Pair events clock)
  show ?thesis
  proof (cases rv)
    case First
    have "component_ok (foldl (\<lambda>c e. let c' = handle First e c
                   in if allocated (store c') \<noteq> allocated (store c)
                      then selectors_First c' else c') c events)"
      by (rule foldl_preserves [where P = component_ok])
        (simp_all add: Let_def component_ok_handle component_ok_selectors_First assms)
    with First Pair show ?thesis by simp
  next
    case Second
    have "component_ok (foldl (\<lambda>c e. handle Second e c) c events)"
      by (rule foldl_preserves [where P = component_ok]) (simp_all add: component_ok_handle assms)
    with Second Pair show ?thesis
      by (simp add: Let_def component_ok_selectors_Second)
  qed
qed

lemma component_ok_run:
  assumes "component_ok c"
  shows "component_ok (run rv tasks c)"
  unfolding run_def
  by (rule foldl_preserves [where P = component_ok]) (simp_all add: component_ok_task assms)

lemma component_ok_initial: "component_ok (initial_component cv)"
  by (simp add: component_ok_def initial_component_def store_ok_def initial_state_def)













subsection \<open>A verification result for a value without a record\<close>

text \<open>
  C5, as stated, fails: on the empty store, \<open>updateBarcodeSearchStatus\<close> for \<open>X9\<close> is not
  a no-op. It inserts an object that has a status and no count.
\<close>

theorem updateBarcodeSearchStatus_absent_counterexample:
  "scanResult (updateBarcodeSearchStatus ''X9'' rejected initial_state) ''X9''
     = Some (empty_object\<lparr>searchStatus := Some rejected\<rparr>)
   \<and> count (empty_object\<lparr>searchStatus := Some rejected\<rparr>) = None
   \<and> scanResults (updateBarcodeSearchStatus ''X9'' rejected initial_state)
       \<noteq> scanResults initial_state"
  by (simp add: scanResult_updateBarcodeSearchStatus_same updateBarcodeSearchStatus_def
      scanResults_get_def inherited_def Object_prototype_def
      set_property_def is_array_index_def scanResult_def initial_state_def empty_object_def)

text \<open>
  C5, amended. For a value without a record, \<open>updateBarcodeSearchStatus\<close> inserts under
  the value an object that has the given status and no other property, and leaves the
  entry of every other key as it was; it has no failing branch. The component does not
  do so: in every state it reaches, each pending verification result is for a value that
  has a record.
\<close>

theorem updateBarcodeSearchStatus_absent:
  "(scanResult state v = None \<longrightarrow>
      scanResult (updateBarcodeSearchStatus v status state) v
        = Some (empty_object\<lparr>searchStatus := Some status, ref := allocated state\<rparr>)
    \<and> (\<forall>k. k \<noteq> v \<longrightarrow>
          scanResult (updateBarcodeSearchStatus v status state) k = scanResult state k))
   \<and> (\<forall>q \<in> set (in_flight (run rv tasks (initial_component cv))).
        scanResult (store (run rv tasks (initial_component cv)))
          (property_key (displayValue (request_barcode q))) \<noteq> None)"
proof -
  have "component_ok (run rv tasks (initial_component cv))"
    by (rule component_ok_run) (rule component_ok_initial)
  then have "\<forall>q \<in> set (in_flight (run rv tasks (initial_component cv))).
        scanResult (store (run rv tasks (initial_component cv)))
          (property_key (displayValue (request_barcode q))) \<noteq> None"
    by (auto simp: component_ok_def request_ok_def property_key_def)
  then show ?thesis
    by (simp add: scanResult_updateBarcodeSearchStatus_same
        scanResult_updateBarcodeSearchStatus_other)
qed

theorem updateBarcodeSearchStatus_absent_witness:
  "scanResult (updateBarcodeSearchStatus ''X9'' rejected (sample_state [(''S1'', 3, matched)])) ''X9''
     = Some (empty_object\<lparr>searchStatus := Some rejected, ref := 1\<rparr>)
   \<and> scanResult (updateBarcodeSearchStatus ''X9'' rejected (sample_state [(''S1'', 3, matched)])) ''S1''
     = Some (sample_result ''S1'' 3 matched)
   \<and> map (\<lambda>q. displayValue (request_barcode q))
        (in_flight (run First
          [alone (BarcodeScanned (sample_barcode ''X9'') 10),
           alone (BarcodeScanned (sample_barcode ''X9'') 20),
           alone (BarcodeScanned (sample_barcode ''X9'') 30)] (initial_component False)))
      = [Some ''X9'']
   \<and> scanResult (store (run First
          [alone (BarcodeScanned (sample_barcode ''X9'') 10),
           alone (BarcodeScanned (sample_barcode ''X9'') 20),
           alone (BarcodeScanned (sample_barcode ''X9'') 30)] (initial_component False))) ''X9''
      \<noteq> None"
proof -
  have flight: "map (\<lambda>q. displayValue (request_barcode q))
        (in_flight (run First
          [alone (BarcodeScanned (sample_barcode ''X9'') 10),
           alone (BarcodeScanned (sample_barcode ''X9'') 20),
           alone (BarcodeScanned (sample_barcode ''X9'') 30)] (initial_component False)))
      = [Some ''X9'']"
    by code_simp
  have absent: "scanResult (sample_state [(''S1'', 3, matched)]) ''X9'' = None"
    by (simp add: sample_state_def scanResult_def)
  from flight obtain q where q: "in_flight (run First
          [alone (BarcodeScanned (sample_barcode ''X9'') 10),
           alone (BarcodeScanned (sample_barcode ''X9'') 20),
           alone (BarcodeScanned (sample_barcode ''X9'') 30)] (initial_component False)) = [q]"
      "displayValue (request_barcode q) = Some ''X9''"
    by auto
  from updateBarcodeSearchStatus_absent
    [of "sample_state [(''S1'', 3, matched)]" "''X9''" rejected First
        "[alone (BarcodeScanned (sample_barcode ''X9'') 10),
           alone (BarcodeScanned (sample_barcode ''X9'') 20),
           alone (BarcodeScanned (sample_barcode ''X9'') 30)]" False]
    absent q flight
  show ?thesis
    by (simp add: property_key_def sample_state_def sample_result_def scanResult_def)
qed

subsection \<open>The overlay view\<close>

lemma drawBox_overlay_calls:
  "timestamp r = Some t \<Longrightarrow> drawBox now r = Inr (overlay_calls now r)"
  by (auto simp: drawBox_def isStale_def overlay_calls_def split: option.splits)

lemma drawBoxes_loop_overlay_calls:
  assumes "\<forall>r \<in> set rs. timestamp r \<noteq> None"
  shows "drawBoxes_loop clock i rs
           = (concat (map (\<lambda>(j, r). overlay_calls (clock j) r) (enumerate i rs)), None)"
  using assms
proof (induction rs arbitrary: i)
  case Nil
  then show ?case by simp
next
  case (Cons r rs)
  then obtain t where "timestamp r = Some t" by auto
  with Cons show ?case by (simp add: drawBox_overlay_calls)
qed

text \<open>
  C8, as stated, fails twice. A record last seen exactly 1000 ms ago is still drawn,
  although \<open>now - lastSeenAt < 1000\<close> is false. A record seen 10 ms ago whose count is 1
  is not drawn: \<open>drawBoxes\<close> receives the filtered array only.
\<close>

theorem drawBoxes_threshold_and_freshness_counterexample:
  "drawBox 1000 (sample_result ''Y1'' 3 scanned)
     = Inr [BeginPath, MoveTo 36 18, LineTo 72 18, LineTo 72 54, LineTo 36 54, ClosePath, Stroke]
   \<and> timestamp (sample_result ''Y1'' 3 scanned) = Some 0
   \<and> drawBoxes True (\<lambda>i. 10)
       (barcodesFilteredArray (scanResults (sample_state [(''Y1'', 1, scanned)])))
     = ([ClearRect], None)"
  by (simp add: drawBox_def isStale_def sample_result_def scale_def drawBoxes_def
      barcodesFilteredArray_def object_values_def sample_state_def array_sort_def
      POSITIVE_SCAN_THRESHOLD_def)

text \<open>
  C8, amended. One iteration of \<open>drawBoxes\<close> strokes the box of a record exactly when
  the record has corner points and \<open>now - timestamp \<le> 1000\<close>, and a box is at least one
  canvas call. \<open>drawBoxes\<close> runs over \<open>barcodesFilteredArray\<close>, whose elements are the
  records of the store with count at least 3; records below the threshold are not drawn.
  Drawing leaves the store as it is.
\<close>

theorem drawBoxes_threshold_and_freshness:
  "(timestamp r = Some t \<longrightarrow>
      drawBox now r
        = Inr (if cornerPoints r \<noteq> None \<and> now - t \<le> 1000 then box_calls r else []))
   \<and> (cornerPoints r \<noteq> None \<longrightarrow> box_calls r \<noteq> [])
   \<and> ((\<forall>x \<in> set (barcodesFilteredArray (scanResults state)). timestamp x \<noteq> None) \<longrightarrow>
        drawBoxes True clock (barcodesFilteredArray (scanResults state))
          = (ClearRect # concat (map (\<lambda>(j, x). overlay_calls (clock j) x)
                  (enumerate 0 (barcodesFilteredArray (scanResults state)))), None))
   \<and> set (barcodesFilteredArray (scanResults state))
       = {x \<in> snd ` set (scanResults state). at_least_threshold (count x)}
   \<and> store (draw clock array c) = store c"
  by (auto simp: drawBox_overlay_calls overlay_calls_def drawBoxes_def
      drawBoxes_loop_overlay_calls set_barcodesFilteredArray split: option.splits)

theorem drawBoxes_threshold_and_freshness_witness:
  "drawBox 1000 (sample_result ''Y1'' 3 scanned) = Inr (box_calls (sample_result ''Y1'' 3 scanned))
   \<and> drawBox 1001 (sample_result ''Y1'' 3 scanned) = Inr []
   \<and> box_calls (sample_result ''Y1'' 3 scanned) \<noteq> []
   \<and> drawBoxes True (\<lambda>i. 500)
        (barcodesFilteredArray (scanResults (sample_state [(''Y1'', 3, scanned), (''Y2'', 2, scanned)])))
      = (ClearRect # box_calls (sample_result ''Y1'' 3 scanned), None)"
proof -
  have array: "barcodesFilteredArray (scanResults (sample_state [(''Y1'', 3, scanned), (''Y2'', 2, scanned)]))
      = [sample_result ''Y1'' 3 scanned]"
    by (simp add: barcodesFilteredArray_def object_values_def sample_state_def array_sort_def
        sample_result_def POSITIVE_SCAN_THRESHOLD_def)
  have ts: "timestamp (sample_result ''Y1'' 3 scanned) = Some 0"
    and cp: "cornerPoints (sample_result ''Y1'' 3 scanned) \<noteq> None"
    by (simp_all add: sample_result_def)
  from drawBoxes_threshold_and_freshness
      [of "sample_result ''Y1'' 3 scanned" 0 1000
          "sample_state [(''Y1'', 3, scanned), (''Y2'', 2, scanned)]" "\<lambda>i. 500"]
    drawBoxes_threshold_and_freshness
      [of "sample_result ''Y1'' 3 scanned" 0 1001
          "sample_state [(''Y1'', 3, scanned), (''Y2'', 2, scanned)]" "\<lambda>i. 500"]
    array ts cp
  show ?thesis by (simp add: overlay_calls_def enumerate_eq_zip)
qed

subsection \<open>The threshold gate on concrete runs\<close>

text \<open>
  C1 on the code. Second revision: \<open>S1\<close> is detected three times and its verification
  result arrives; the status update replaces the object, its count is still 3, and
  \<open>newBarcode$\<close> passes it on again, so a second verification of \<open>S1\<close> is dispatched. First
  revision: after three detections of \<open>S1\<close>, a detection of another value \<open>X9\<close> makes
  \<open>newBarcode$\<close> offer \<open>S1\<close> again.
\<close>

theorem newBarcode_fires_again:
  "searches (effects (run Second
     [alone (BarcodeScanned (sample_barcode ''S1'') 10),
      alone (BarcodeScanned (sample_barcode ''S1'') 20),
      alone (BarcodeScanned (sample_barcode ''S1'') 30),
      alone (ApiResponse 0)] (initial_component True))) = [''S1'', ''S1'']
   \<and> searches (effects (run First
     [alone (BarcodeScanned (sample_barcode ''S1'') 10),
      alone (BarcodeScanned (sample_barcode ''S1'') 20),
      alone (BarcodeScanned (sample_barcode ''S1'') 30),
      alone (BarcodeScanned (sample_barcode ''X9'') 40)] (initial_component True))) = [''S1'', ''S1'']"
  by code_simp

text \<open>
  C3 on the code. When \<open>A\<close> and \<open>B\<close> reach count 3 in the same task of the second
  revision, the ranked array holds both and only \<open>B\<close>, its last element, is verified. The
  same happens across tasks: with detections \<open>A, B, B, B, A, A\<close> the value \<open>A\<close> reaches
  the threshold while \<open>B\<close> stands last at count 3, and \<open>A\<close> is never verified, in either
  revision.
\<close>

theorem newBarcode_drops_crossing:
  "map (\<lambda>r. (displayValue r, count r))
     (barcodesFilteredArray (scanResults (store (run Second
       [alone (BarcodeScanned (sample_barcode ''A'') 10),
        alone (BarcodeScanned (sample_barcode ''B'') 20),
        alone (BarcodeScanned (sample_barcode ''A'') 30),
        alone (BarcodeScanned (sample_barcode ''B'') 40),
        ([BarcodeScanned (sample_barcode ''A'') 50, BarcodeScanned (sample_barcode ''B'') 50],
         \<lambda>i. 50)] (initial_component True)))))
     = [(Some ''A'', Some (Num 3)), (Some ''B'', Some (Num 3))]
   \<and> map_option displayValue
     (newBarcode (store (run Second
       [alone (BarcodeScanned (sample_barcode ''A'') 10),
        alone (BarcodeScanned (sample_barcode ''B'') 20),
        alone (BarcodeScanned (sample_barcode ''A'') 30),
        alone (BarcodeScanned (sample_barcode ''B'') 40),
        ([BarcodeScanned (sample_barcode ''A'') 50, BarcodeScanned (sample_barcode ''B'') 50],
         \<lambda>i. 50)] (initial_component True))))
     = Some (Some ''B'')
   \<and> searches (effects (run Second
       [alone (BarcodeScanned (sample_barcode ''A'') 10),
        alone (BarcodeScanned (sample_barcode ''B'') 20),
        alone (BarcodeScanned (sample_barcode ''A'') 30),
        alone (BarcodeScanned (sample_barcode ''B'') 40),
        ([BarcodeScanned (sample_barcode ''A'') 50, BarcodeScanned (sample_barcode ''B'') 50],
         \<lambda>i. 50)] (initial_component True))) = [''B'']
   \<and> searches (effects (run Second
       [alone (BarcodeScanned (sample_barcode ''A'') 10),
        alone (BarcodeScanned (sample_barcode ''B'') 20),
        alone (BarcodeScanned (sample_barcode ''B'') 30),
        alone (BarcodeScanned (sample_barcode ''B'') 40),
        alone (BarcodeScanned (sample_barcode ''A'') 50),
        alone (BarcodeScanned (sample_barcode ''A'') 60)] (initial_component True))) = [''B'']
   \<and> searches (effects (run First
       [alone (BarcodeScanned (sample_barcode ''A'') 10),
        alone (BarcodeScanned (sample_barcode ''B'') 20),
        alone (BarcodeScanned (sample_barcode ''B'') 30),
        alone (BarcodeScanned (sample_barcode ''B'') 40),
        alone (BarcodeScanned (sample_barcode ''A'') 50),
        alone (BarcodeScanned (sample_barcode ''A'') 60)] (initial_component True)))
     = [''B'', ''B'', ''B'']"
  by code_simp

end
